theory Spec2Isabelle
  imports Complex_Main "HOL-Library.Multiset"
begin

section \<open>Python values and JSON records\<close>

text \<open>
  The evaluator works on documents read by \<^verbatim>\<open>json.load\<close>. A loaded value is
  \<^verbatim>\<open>None\<close>, a bool, an int, a float, a string, a list or a dict. Floats are
  modelled by real numbers (exact arithmetic; NaN and the infinities are not values of
  the model), a dict by an association list read with \<open>map_of\<close>.
\<close>

datatype json =
    JNull
  | JBool bool
  | JInt int
  | JFloat real
  | JStr string
  | JList "json list"
  | JDict "(string \<times> json) list"

type_synonym dict = "(string \<times> json) list"

datatype error = TypeError | AttributeError | ZeroDivisionError | ValueError

text \<open>\<^verbatim>\<open>d.get(key)\<close>: the value, or \<^verbatim>\<open>None\<close> when the key is absent.\<close>

definition py_get :: "dict \<Rightarrow> string \<Rightarrow> json" where
  "py_get d key = (case map_of d key of None \<Rightarrow> JNull | Some v \<Rightarrow> v)"

text \<open>\<^verbatim>\<open>d.get(key, 0)\<close>.\<close>

definition py_get0 :: "dict \<Rightarrow> string \<Rightarrow> json" where
  "py_get0 d key = (case map_of d key of None \<Rightarrow> JInt 0 | Some v \<Rightarrow> v)"

text \<open>
  The number a Python value denotes in arithmetic: ints and floats, and bools, which
  are ints in Python (\<^verbatim>\<open>True == 1\<close>). Everything else has none.
\<close>

fun to_num :: "json \<Rightarrow> real option" where
  "to_num (JBool b) = Some (if b then 1 else 0)"
| "to_num (JInt i) = Some (real_of_int i)"
| "to_num (JFloat r) = Some r"
| "to_num _ = None"

text \<open>\<^verbatim>\<open>isinstance(value, (int, float))\<close>: bool is a subclass of int.\<close>

fun is_int_or_float :: "json \<Rightarrow> bool" where
  "is_int_or_float (JBool b) = True"
| "is_int_or_float (JInt i) = True"
| "is_int_or_float (JFloat r) = True"
| "is_int_or_float _ = False"

text \<open>\<^verbatim>\<open>x - y\<close> on loaded values: a number, or TypeError for operands that are not numbers.\<close>

definition py_sub :: "json \<Rightarrow> json \<Rightarrow> error + real" where
  "py_sub x y =
     (case (to_num x, to_num y) of
        (Some a, Some b) \<Rightarrow> Inr (a - b)
      | _ \<Rightarrow> Inl TypeError)"

section \<open>Field Extractor\<close>

text \<open>\<^verbatim>\<open>field_path.split('.')\<close>: the segments between the dots; never empty.\<close>

fun split_dot :: "string \<Rightarrow> string list" where
  "split_dot [] = [[]]"
| "split_dot (c # cs) =
     (if c = CHR ''.'' then [] # split_dot cs
      else (case split_dot cs of
              seg # segs \<Rightarrow> (c # seg) # segs
            | [] \<Rightarrow> [[c]]))"

text \<open>
  The loop of \<^verbatim>\<open>_get_nested_field\<close>: \<open>None\<close> is the early \<^verbatim>\<open>return None\<close>,
  \<open>Some value\<close> the value reached when the segments are used up.
\<close>

fun walk :: "json \<Rightarrow> string list \<Rightarrow> json option" where
  "walk v [] = Some v"
| "walk (JDict d) (field # fields) =
     (case map_of d field of
        Some v' \<Rightarrow> walk v' fields
      | None \<Rightarrow> None)"
| "walk _ (field # fields) = None"

definition get_nested_field :: "dict \<Rightarrow> string \<Rightarrow> json option" where
  "get_nested_field data field_path =
     (case walk (JDict data) (split_dot field_path) of
        None \<Rightarrow> None
      | Some v \<Rightarrow> if is_int_or_float v then Some v else None)"

section \<open>Temporal Aligner\<close>

text \<open>
  \<^verbatim>\<open>min_time_diff\<close> starts as \<^verbatim>\<open>float('inf')\<close> and then holds the smallest
  difference seen.
\<close>

datatype tdiff = Fin real | PInf

text \<open>\<^verbatim>\<open>time_diff < min_time_diff\<close>.\<close>

fun below :: "real \<Rightarrow> tdiff \<Rightarrow> bool" where
  "below d PInf = True"
| "below d (Fin m) = (d < m)"

text \<open>\<^verbatim>\<open>min_time_diff < tolerance\<close>.\<close>

fun less_tol :: "tdiff \<Rightarrow> real \<Rightarrow> bool" where
  "less_tol PInf tol = False"
| "less_tol (Fin m) tol = (m < tol)"

text \<open>
  The inner loop over the converted entries, the same text in every calculator: the
  state is \<^verbatim>\<open>(closest_entry, min_time_diff)\<close>. Subtracting two timestamps that
  are not numbers raises TypeError.
\<close>

fun find_closest_loop ::
  "json \<Rightarrow> dict list \<Rightarrow> dict option \<times> tdiff \<Rightarrow> error + (dict option \<times> tdiff)" where
  "find_closest_loop gt_time [] st = Inr st"
| "find_closest_loop gt_time (conv_entry # rest) (closest_entry, min_time_diff) =
     (let conv_time = py_get conv_entry ''time_unix'' in
      if conv_time \<noteq> JNull \<and> gt_time \<noteq> JNull then
        (case py_sub gt_time conv_time of
           Inl e \<Rightarrow> Inl e
         | Inr d \<Rightarrow>
             (let time_diff = \<bar>d\<bar> in
              if below time_diff min_time_diff
              then find_closest_loop gt_time rest (Some conv_entry, Fin time_diff)
              else find_closest_loop gt_time rest (closest_entry, min_time_diff)))
      else find_closest_loop gt_time rest (closest_entry, min_time_diff))"

definition find_closest :: "json \<Rightarrow> dict list \<Rightarrow> error + (dict option \<times> tdiff)" where
  "find_closest gt_time converted_data = find_closest_loop gt_time converted_data (None, PInf)"

text \<open>
  One pass of the outer loop for one ground-truth entry: the error sample it appends
  (\<open>Some\<close>), or nothing. \<open>tol\<close> is the tolerance of the calculator and
  \<open>pair_error\<close> what it computes from an accepted pair.
\<close>

definition entry_error ::
  "real \<Rightarrow> (dict \<Rightarrow> dict \<Rightarrow> error + real option) \<Rightarrow> dict \<Rightarrow> dict list \<Rightarrow> error + real option" where
  "entry_error tol pair_error gt_entry converted_data =
     (case find_closest (py_get gt_entry ''time_unix'') converted_data of
        Inl e \<Rightarrow> Inl e
      | Inr (closest_entry, min_time_diff) \<Rightarrow>
          (case closest_entry of
             Some c \<Rightarrow> if less_tol min_time_diff tol then pair_error gt_entry c else Inr None
           | None \<Rightarrow> Inr None))"

text \<open>The outer loop: the list \<^verbatim>\<open>errors\<close>, in the order of the appends.\<close>

fun match_errors ::
  "real \<Rightarrow> (dict \<Rightarrow> dict \<Rightarrow> error + real option) \<Rightarrow> dict list \<Rightarrow> dict list \<Rightarrow> error + real list" where
  "match_errors tol pair_error [] converted_data = Inr []"
| "match_errors tol pair_error (gt_entry # rest) converted_data =
     (case entry_error tol pair_error gt_entry converted_data of
        Inl e \<Rightarrow> Inl e
      | Inr contribution \<Rightarrow>
          (case match_errors tol pair_error rest converted_data of
             Inl e \<Rightarrow> Inl e
           | Inr errors \<Rightarrow>
               Inr ((case contribution of Some x \<Rightarrow> [x] | None \<Rightarrow> []) @ errors)))"

section \<open>Statistics\<close>

definition np_mean :: "real list \<Rightarrow> real" where
  "np_mean xs = sum_list xs / real (length xs)"

definition np_std :: "real list \<Rightarrow> real" where
  "np_std xs = sqrt (np_mean (map (\<lambda>x. \<bar>x - np_mean xs\<bar> ^ 2) xs))"

definition np_max :: "real list \<Rightarrow> real" where
  "np_max xs = Max (set xs)"

definition np_min :: "real list \<Rightarrow> real" where
  "np_min xs = Min (set xs)"

text \<open>Python's \<^verbatim>\<open>/\<close> on two ints.\<close>

definition py_div :: "real \<Rightarrow> real \<Rightarrow> error + real" where
  "py_div a b = (if b = 0 then Inl ZeroDivisionError else Inr (a / b))"

section \<open>Numerical field errors\<close>

definition field_pair_error :: "string \<Rightarrow> dict \<Rightarrow> dict \<Rightarrow> error + real option" where
  "field_pair_error field gt_entry closest_entry =
     (case (get_nested_field gt_entry field, get_nested_field closest_entry field) of
        (Some gt_value, Some conv_value) \<Rightarrow>
          (case py_sub gt_value conv_value of
             Inl e \<Rightarrow> Inl e
           | Inr d \<Rightarrow> Inr (Some \<bar>d\<bar>))
      | _ \<Rightarrow> Inr None)"

text \<open>The all-\<^verbatim>\<open>None\<close> result of a field with no error sample.\<close>

definition no_field_stats :: dict where
  "no_field_stats =
     [(''mae'', JNull), (''rmse'', JNull), (''nrmse'', JNull), (''max_error'', JNull),
      (''min_error'', JNull), (''std_error'', JNull), (''num_matched_points'', JInt 0),
      (''matched_percentage'', JInt 0)]"

definition field_stats :: "dict list \<Rightarrow> string \<Rightarrow> real list \<Rightarrow> error + dict" where
  "field_stats ground_truth_data field errors =
     (if errors \<noteq> [] then
        (let mae = np_mean errors;
             rmse = sqrt (np_mean (map (\<lambda>e. e ^ 2) errors));
             gt_values = List.map_filter to_num
                           (List.map_filter (\<lambda>entry. get_nested_field entry field) ground_truth_data);
             nrmse = (if gt_values \<noteq> [] then
                        (let gt_range = np_max gt_values - np_min gt_values in
                         if gt_range > 0 then JFloat (rmse / gt_range) else JNull)
                      else JNull)
         in case py_div (real (length errors)) (real (length ground_truth_data)) of
              Inl e \<Rightarrow> Inl e
            | Inr q \<Rightarrow>
                Inr [(''mae'', JFloat mae), (''rmse'', JFloat rmse), (''nrmse'', nrmse),
                     (''max_error'', JFloat (np_max errors)),
                     (''min_error'', JFloat (np_min errors)),
                     (''std_error'', JFloat (np_std errors)),
                     (''num_matched_points'', JInt (int (length errors))),
                     (''matched_percentage'', JFloat (q * 100))])
      else Inr no_field_stats)"

text \<open>The result for one field, and the loop over \<^verbatim>\<open>fields\<close> filling \<^verbatim>\<open>results\<close>.\<close>

definition field_errors :: "dict list \<Rightarrow> dict list \<Rightarrow> string \<Rightarrow> error + dict" where
  "field_errors ground_truth_data converted_data field =
     (case match_errors (1 / 10) (field_pair_error field) ground_truth_data converted_data of
        Inl e \<Rightarrow> Inl e
      | Inr errors \<Rightarrow> field_stats ground_truth_data field errors)"

fun calculate_field_errors ::
  "dict list \<Rightarrow> dict list \<Rightarrow> string list \<Rightarrow> error + (string \<times> dict) list" where
  "calculate_field_errors ground_truth_data converted_data [] = Inr []"
| "calculate_field_errors ground_truth_data converted_data (field # fields) =
     (case field_errors ground_truth_data converted_data field of
        Inl e \<Rightarrow> Inl e
      | Inr stats \<Rightarrow>
          (case calculate_field_errors ground_truth_data converted_data fields of
             Inl e \<Rightarrow> Inl e
           | Inr results \<Rightarrow> Inr ((field, stats) # results)))"

section \<open>Specification vocabulary for the aligner\<close>

text \<open>
  The distance of an entry's timestamp from the ground-truth time \<open>T\<close> (none for an
  entry without a numeric timestamp), and the well-typedness of a converted dataset:
  every \<^verbatim>\<open>time_unix\<close> is absent, \<^verbatim>\<open>None\<close> or a number.
\<close>

definition time_diff_to :: "real \<Rightarrow> dict \<Rightarrow> real option" where
  "time_diff_to T e = map_option (\<lambda>t. \<bar>T - t\<bar>) (to_num (py_get e ''time_unix''))"

definition times_ok :: "dict list \<Rightarrow> bool" where
  "times_ok converted_data =
     list_all (\<lambda>e. py_get e ''time_unix'' = JNull \<or> to_num (py_get e ''time_unix'') \<noteq> None) converted_data"


section \<open>Specification vocabulary for field resolution\<close>

text \<open>
  The specification's reading of a path: \<open>reaches v segs w\<close> holds when, starting at
  \<open>v\<close>, every node met before the last segment is a mapping containing the next
  segment, and \<open>w\<close> is the value found at the end.
\<close>

inductive reaches :: "json \<Rightarrow> string list \<Rightarrow> json \<Rightarrow> bool" where
  reaches_here: "reaches v [] v"
| reaches_step: "map_of d seg = Some v' \<Longrightarrow> reaches v' segs w \<Longrightarrow> reaches (JDict d) (seg # segs) w"

code_pred reaches .

text \<open>The numeric values of the specification: ints and floats, booleans excluded.\<close>

fun spec_numeric :: "json \<Rightarrow> bool" where
  "spec_numeric (JInt i) = True"
| "spec_numeric (JFloat r) = True"
| "spec_numeric _ = False"


section \<open>Coordinate Transform Checker\<close>

text \<open>\<^verbatim>\<open>np.radians\<close>.\<close>

definition radians :: "real \<Rightarrow> real" where
  "radians x = x * pi / 180"

text \<open>
  \<^verbatim>\<open>_lla_to_ecef\<close>. Each argument is a number or \<^verbatim>\<open>None\<close>, as its docstring
  says (degrees, degrees, metres).
\<close>

definition lla_to_ecef ::
  "real option \<Rightarrow> real option \<Rightarrow> real option \<Rightarrow> (real \<times> real \<times> real) option" where
  "lla_to_ecef lat lon alt =
     (case (lat, lon, alt) of
        (Some lat, Some lon, Some alt) \<Rightarrow>
          (let a = 6378137;
               f = 1 / 298.257223563;
               e_sq = 2 * f - f ^ 2;
               lat_rad = radians lat;
               lon_rad = radians lon;
               N = a / sqrt (1 - e_sq * sin lat_rad ^ 2);
               x = (N + alt) * cos lat_rad * cos lon_rad;
               y = (N + alt) * cos lat_rad * sin lon_rad;
               z = (N * (1 - e_sq) + alt) * sin lat_rad
           in Some (x, y, z))
      | _ \<Rightarrow> None)"

text \<open>The WGS-84 quantities as the specification writes them.\<close>

definition wgs84_a :: real where "wgs84_a = 6378137"
definition wgs84_f :: real where "wgs84_f = 1 / 298.257223563"
definition wgs84_e_sq :: real where "wgs84_e_sq = 2 * wgs84_f - wgs84_f ^ 2"
definition wgs84_N :: "real \<Rightarrow> real" where
  "wgs84_N lat = wgs84_a / sqrt (1 - wgs84_e_sq * sin (radians lat) ^ 2)"


section \<open>Position, orientation and acceleration errors\<close>

text \<open>
  The three calculators of the companion evaluator. Each is given here the record
  list \<^verbatim>\<open>ground_truth.get("gnss_data", [])\<close> (or \<^verbatim>\<open>"imu_data"\<close>) of its two documents.
\<close>

text \<open>\<^verbatim>\<open>obj.get(key, 0)\<close> on a loaded value: only a dict has the method.\<close>

definition attr_get0 :: "json \<Rightarrow> string \<Rightarrow> error + json" where
  "attr_get0 obj key = (case obj of JDict d \<Rightarrow> Inr (py_get0 d key) | _ \<Rightarrow> Inl AttributeError)"

text \<open>\<^verbatim>\<open>abs(a.get(key, 0) - b.get(key, 0))\<close>.\<close>

definition abs_diff0 :: "json \<Rightarrow> json \<Rightarrow> string \<Rightarrow> error + real" where
  "abs_diff0 a b key =
     (case attr_get0 a key of
        Inl e \<Rightarrow> Inl e
      | Inr x \<Rightarrow>
          (case attr_get0 b key of
             Inl e \<Rightarrow> Inl e
           | Inr y \<Rightarrow> (case py_sub x y of Inl e \<Rightarrow> Inl e | Inr d \<Rightarrow> Inr \<bar>d\<bar>)))"

text \<open>A numeric use of \<^verbatim>\<open>obj.get(key, 0)\<close>, as in \<^verbatim>\<open>np.radians(...)\<close>.\<close>

definition num_attr0 :: "json \<Rightarrow> string \<Rightarrow> error + real" where
  "num_attr0 obj key =
     (case attr_get0 obj key of
        Inl e \<Rightarrow> Inl e
      | Inr v \<Rightarrow> (case to_num v of Some x \<Rightarrow> Inr x | None \<Rightarrow> Inl TypeError))"

definition position_pair_error :: "dict \<Rightarrow> dict \<Rightarrow> error + real option" where
  "position_pair_error gt_entry closest_entry =
     (let gt_pos = py_get gt_entry ''position_lla'';
          conv_pos = py_get closest_entry ''position_lla''
      in if gt_pos \<noteq> JNull \<and> conv_pos \<noteq> JNull then
           (case abs_diff0 gt_pos conv_pos ''latitude_deg'' of Inl e \<Rightarrow> Inl e | Inr lat_error \<Rightarrow>
            (case abs_diff0 gt_pos conv_pos ''longitude_deg'' of Inl e \<Rightarrow> Inl e | Inr lon_error \<Rightarrow>
             (case abs_diff0 gt_pos conv_pos ''altitude_m'' of Inl e \<Rightarrow> Inl e | Inr alt_error \<Rightarrow>
              (case num_attr0 gt_pos ''latitude_deg'' of Inl e \<Rightarrow> Inl e | Inr lat \<Rightarrow>
                 (let lat_m_error = lat_error * 111000;
                      lon_m_error = lon_error * 111000 * cos (radians lat)
                  in Inr (Some (sqrt (lat_m_error ^ 2 + lon_m_error ^ 2 + alt_error ^ 2))))))))
         else Inr None)"

text \<open>The four components read with default 0, and a product of two of them.\<close>

definition quaternion :: "json \<Rightarrow> error + (json \<times> json \<times> json \<times> json)" where
  "quaternion obj =
     (case obj of
        JDict d \<Rightarrow> Inr (py_get0 d ''w'', py_get0 d ''x'', py_get0 d ''y'', py_get0 d ''z'')
      | _ \<Rightarrow> Inl AttributeError)"

definition py_mul :: "json \<Rightarrow> json \<Rightarrow> error + real" where
  "py_mul x y =
     (case (to_num x, to_num y) of
        (Some a, Some b) \<Rightarrow> Inr (a * b)
      | _ \<Rightarrow> Inl TypeError)"

text \<open>\<^verbatim>\<open>np.degrees\<close>.\<close>

definition degrees :: "real \<Rightarrow> real" where
  "degrees x = x * 180 / pi"

definition orientation_pair_error :: "dict \<Rightarrow> dict \<Rightarrow> error + real option" where
  "orientation_pair_error gt_entry closest_entry =
     (let gt_orient = py_get gt_entry ''orientation'';
          conv_orient = py_get closest_entry ''orientation''
      in if gt_orient \<noteq> JNull \<and> conv_orient \<noteq> JNull then
           (case quaternion gt_orient of Inl e \<Rightarrow> Inl e | Inr (w1, x1, y1, z1) \<Rightarrow>
            (case quaternion conv_orient of Inl e \<Rightarrow> Inl e | Inr (w2, x2, y2, z2) \<Rightarrow>
             (case py_mul w1 w2 of Inl e \<Rightarrow> Inl e | Inr ww \<Rightarrow>
              (case py_mul x1 x2 of Inl e \<Rightarrow> Inl e | Inr xx \<Rightarrow>
               (case py_mul y1 y2 of Inl e \<Rightarrow> Inl e | Inr yy \<Rightarrow>
                (case py_mul z1 z2 of Inl e \<Rightarrow> Inl e | Inr zz \<Rightarrow>
                   (let dot_product = ww + xx + yy + zz;
                        dot_product = max (min dot_product 1) (- 1);
                        angle_diff = degrees (2 * arccos \<bar>dot_product\<bar>)
                    in Inr (Some angle_diff))))))))
         else Inr None)"

definition acceleration_pair_error :: "dict \<Rightarrow> dict \<Rightarrow> error + real option" where
  "acceleration_pair_error gt_entry closest_entry =
     (let gt_acc = py_get gt_entry ''linear_acceleration'';
          conv_acc = py_get closest_entry ''linear_acceleration''
      in if gt_acc \<noteq> JNull \<and> conv_acc \<noteq> JNull then
           (case abs_diff0 gt_acc conv_acc ''x'' of Inl e \<Rightarrow> Inl e | Inr x_error \<Rightarrow>
            (case abs_diff0 gt_acc conv_acc ''y'' of Inl e \<Rightarrow> Inl e | Inr y_error \<Rightarrow>
             (case abs_diff0 gt_acc conv_acc ''z'' of Inl e \<Rightarrow> Inl e | Inr z_error \<Rightarrow>
                Inr (Some (sqrt (x_error ^ 2 + y_error ^ 2 + z_error ^ 2))))))
         else Inr None)"

text \<open>
  The result dict of the three calculators; \<open>what\<close> is \<^verbatim>\<open>position_error_m\<close>,
  \<^verbatim>\<open>orientation_error_deg\<close> or \<^verbatim>\<open>acceleration_error_mps2\<close>, and \<open>n_records\<close> the
  number of ground-truth records.
\<close>

definition no_error_stats :: "string \<Rightarrow> dict" where
  "no_error_stats what =
     [(''mean_'' @ what, JNull), (''max_'' @ what, JNull), (''min_'' @ what, JNull),
      (''std_'' @ what, JNull), (''num_matched_points'', JInt 0),
      (''matched_percentage'', JInt 0)]"

definition error_stats :: "string \<Rightarrow> nat \<Rightarrow> real list \<Rightarrow> error + dict" where
  "error_stats what n_records errors =
     (if errors \<noteq> [] then
        (case py_div (real (length errors)) (real n_records) of
           Inl e \<Rightarrow> Inl e
         | Inr q \<Rightarrow>
             Inr [(''mean_'' @ what, JFloat (np_mean errors)),
                  (''max_'' @ what, JFloat (np_max errors)),
                  (''min_'' @ what, JFloat (np_min errors)),
                  (''std_'' @ what, JFloat (np_std errors)),
                  (''num_matched_points'', JInt (int (length errors))),
                  (''matched_percentage'', JFloat (q * 100))])
      else Inr (no_error_stats what))"

definition calculate_position_error :: "dict list \<Rightarrow> dict list \<Rightarrow> error + dict" where
  "calculate_position_error ground_truth converted =
     (case match_errors 1 position_pair_error ground_truth converted of
        Inl e \<Rightarrow> Inl e
      | Inr errors \<Rightarrow> error_stats ''position_error_m'' (length ground_truth) errors)"

definition calculate_orientation_error :: "dict list \<Rightarrow> dict list \<Rightarrow> error + dict" where
  "calculate_orientation_error ground_truth converted =
     (case match_errors (1 / 10) orientation_pair_error ground_truth converted of
        Inl e \<Rightarrow> Inl e
      | Inr errors \<Rightarrow> error_stats ''orientation_error_deg'' (length ground_truth) errors)"

definition calculate_acceleration_error :: "dict list \<Rightarrow> dict list \<Rightarrow> error + dict" where
  "calculate_acceleration_error ground_truth converted =
     (case match_errors (1 / 10) acceleration_pair_error ground_truth converted of
        Inl e \<Rightarrow> Inl e
      | Inr errors \<Rightarrow> error_stats ''acceleration_error_mps2'' (length ground_truth) errors)"

section \<open>Timestamp conversion error\<close>

text \<open>The timestamps of a dataset that are not \<^verbatim>\<open>None\<close>.\<close>

definition timestamps :: "dict list \<Rightarrow> json list" where
  "timestamps data = filter (\<lambda>t. t \<noteq> JNull) (map (\<lambda>entry. py_get entry ''time_unix'') data)"

text \<open>
  \<^verbatim>\<open>min(conv_timestamps, key=lambda t: abs(t - gt_time))\<close>: the first element with the
  least key; ValueError on an empty list.
\<close>

fun min_by_loop :: "json \<Rightarrow> json list \<Rightarrow> json \<times> real \<Rightarrow> error + (json \<times> real)" where
  "min_by_loop gt_time [] best = Inr best"
| "min_by_loop gt_time (t # ts) (best, best_key) =
     (case py_sub t gt_time of
        Inl e \<Rightarrow> Inl e
      | Inr d \<Rightarrow>
          if \<bar>d\<bar> < best_key then min_by_loop gt_time ts (t, \<bar>d\<bar>)
          else min_by_loop gt_time ts (best, best_key))"

definition closest_time :: "json \<Rightarrow> json list \<Rightarrow> error + json" where
  "closest_time gt_time conv_timestamps =
     (case conv_timestamps of
        [] \<Rightarrow> Inl ValueError
      | t # ts \<Rightarrow>
          (case py_sub t gt_time of
             Inl e \<Rightarrow> Inl e
           | Inr d \<Rightarrow>
               (case min_by_loop gt_time ts (t, \<bar>d\<bar>) of
                  Inl e \<Rightarrow> Inl e
                | Inr (best, best_key) \<Rightarrow> Inr best)))"

fun timestamp_errors :: "json list \<Rightarrow> json list \<Rightarrow> error + real list" where
  "timestamp_errors [] conv_timestamps = Inr []"
| "timestamp_errors (gt_time # rest) conv_timestamps =
     (case closest_time gt_time conv_timestamps of
        Inl e \<Rightarrow> Inl e
      | Inr t \<Rightarrow>
          (case py_sub gt_time t of
             Inl e \<Rightarrow> Inl e
           | Inr d \<Rightarrow>
               (case timestamp_errors rest conv_timestamps of
                  Inl e \<Rightarrow> Inl e
                | Inr errors \<Rightarrow> Inr (\<bar>d\<bar> * 1000000 # errors))))"

text \<open>
  The entry \<^verbatim>\<open>results["timestamp_conversion_error"][filename]\<close> of one file pair;
  \<open>None\<close> when the evaluator stores no entry for the file.
\<close>

definition timestamp_conversion_error :: "dict list \<Rightarrow> dict list \<Rightarrow> error + dict option" where
  "timestamp_conversion_error ground_truth converted =
     (let gt_timestamps = timestamps ground_truth;
          conv_timestamps = timestamps converted
      in if gt_timestamps \<noteq> [] \<and> conv_timestamps \<noteq> [] then
           (case timestamp_errors gt_timestamps conv_timestamps of
              Inl e \<Rightarrow> Inl e
            | Inr errors \<Rightarrow>
                Inr (Some [(''mean_error_us'', JFloat (np_mean errors)),
                           (''max_error_us'', JFloat (np_max errors)),
                           (''min_error_us'', JFloat (np_min errors)),
                           (''std_error_us'', JFloat (np_std errors))]))
         else Inr None)"

section \<open>Auxiliary notions\<close>





section \<open>Information content\<close>

text \<open>
  \<^verbatim>\<open>np.histogram(values, bins=bins)\<close> in exact arithmetic: \<open>bins\<close> bins of equal
  width from the least to the greatest value (from half below to half above when all
  values are equal), each closed on the left, the last one closed on the right too.
\<close>

definition bin_index :: "real \<Rightarrow> real \<Rightarrow> nat \<Rightarrow> real \<Rightarrow> nat" where
  "bin_index lo hi bins x =
     (if x = hi then bins - 1 else nat \<lfloor>(x - lo) / (hi - lo) * real bins\<rfloor>)"

definition np_histogram :: "real list \<Rightarrow> nat \<Rightarrow> nat list" where
  "np_histogram values bins =
     (let first_edge = np_min values;
          last_edge = np_max values;
          lo = (if first_edge = last_edge then first_edge - 1 / 2 else first_edge);
          hi = (if first_edge = last_edge then last_edge + 1 / 2 else last_edge)
      in map (\<lambda>i. length (filter (\<lambda>x. bin_index lo hi bins x = i) values)) [0..<bins])"

text \<open>
  \<^verbatim>\<open>scipy.stats.entropy(pk)\<close>: \<open>pk\<close> is normalised to sum 1 and the terms
  \<open>- p ln p\<close> are added, a term being 0 at \<open>p = 0\<close>. The probabilities are never
  negative here.
\<close>

definition entr :: "real \<Rightarrow> real" where
  "entr p = (if p > 0 then - p * ln p else 0)"

definition scipy_entropy :: "real list \<Rightarrow> real" where
  "scipy_entropy pk = (let s = sum_list pk in sum_list (map (\<lambda>p. entr (p / s)) pk))"

definition calculate_entropy :: "real list \<Rightarrow> real" where
  "calculate_entropy values =
     (if values = [] then 0
      else (let bins = min 20 (length values div 5) in
            if bins < 2 then 0
            else (let hist = np_histogram values bins;
                      hist = map (\<lambda>h. real h / real (sum_list hist)) hist
                  in scipy_entropy hist)))"

text \<open>
  The entropy ratio of one field in \<^verbatim>\<open>_evaluate_information_content\<close>, from the
  values of the field in the two datasets: no entry for the field (\<open>None\<close>) when
  either list is empty, else the ratio or \<^verbatim>\<open>None\<close>.
\<close>

definition entropy_ratio :: "real list \<Rightarrow> real list \<Rightarrow> json option" where
  "entropy_ratio gt_values conv_values =
     (if length gt_values > 0 \<and> length conv_values > 0 then
        (let gt_entropy = calculate_entropy gt_values;
             conv_entropy = calculate_entropy conv_values
         in Some (if gt_entropy > 0 then JFloat (conv_entropy / gt_entropy) else JNull))
      else None)"

section \<open>Signal fidelity\<close>

text \<open>
  \<^verbatim>\<open>_calculate_psd(self, signal)\<close>. The parameter is named \<^verbatim>\<open>signal\<close>, so inside
  the body that name is the array passed in and not the module \<^verbatim>\<open>scipy.signal\<close>
  imported under the same name: evaluating \<^verbatim>\<open>signal.welch\<close> looks the attribute up
  on the array and raises AttributeError.
\<close>

definition calculate_psd :: "real list \<Rightarrow> error + real list" where
  "calculate_psd signal = (if length signal < 10 then Inr [] else Inl AttributeError)"

text \<open>\<^verbatim>\<open>np.corrcoef(x, y)[0, 1]\<close>, the correlation coefficient of two samples.\<close>

definition np_corrcoef :: "real list \<Rightarrow> real list \<Rightarrow> real" where
  "np_corrcoef xs ys =
     (let mx = np_mean xs; my = np_mean ys
      in sum_list (map (\<lambda>(x, y). (x - mx) * (y - my)) (zip xs ys))
           / sqrt (sum_list (map (\<lambda>x. (x - mx) ^ 2) xs) * sum_list (map (\<lambda>y. (y - my) ^ 2) ys)))"

text \<open>
  The frequency-response part of the per-field body of
  \<^verbatim>\<open>_evaluate_signal_fidelity\<close>: the correlation stored for the field, if any.
  \<open>is_imu\<close> is \<^verbatim>\<open>"imu" in filename.lower()\<close>.
\<close>

definition frequency_response :: "bool \<Rightarrow> real list \<Rightarrow> real list \<Rightarrow> error + real option" where
  "frequency_response is_imu gt_values conv_values =
     (let min_len = min (length gt_values) (length conv_values);
          gt_signal = take min_len gt_values;
          conv_signal = take min_len conv_values
      in if is_imu \<and> min_len > 10 then
           (case calculate_psd gt_signal of
              Inl e \<Rightarrow> Inl e
            | Inr gt_psd \<Rightarrow>
                (case calculate_psd conv_signal of
                   Inl e \<Rightarrow> Inl e
                 | Inr conv_psd \<Rightarrow>
                     if length gt_psd > 0 \<and> length conv_psd > 0 then
                       (let min_psd_len = min (length gt_psd) (length conv_psd)
                        in Inr (Some (np_corrcoef (take min_psd_len gt_psd)
                                                  (take min_psd_len conv_psd))))
                     else Inr None))
         else Inr None)"

section \<open>Numeric fields of a dataset\<close>

text \<open>\<^verbatim>\<open>isinstance(value, dict)\<close>.\<close>

fun is_dict :: "json \<Rightarrow> bool" where
  "is_dict (JDict d) = True"
| "is_dict _ = False"

text \<open>
  \<^verbatim>\<open>_get_numerical_fields(data, prefix)\<close>: the dotted names of the numeric leaves,
  in the order of \<^verbatim>\<open>data.items()\<close>; nested mappings are descended, lists are not.
\<close>

fun get_numerical_fields :: "json \<Rightarrow> string \<Rightarrow> string list"
  and numerical_fields_items :: "(string \<times> json) list \<Rightarrow> string \<Rightarrow> string list" where
  "get_numerical_fields (JDict d) prefix = numerical_fields_items d prefix"
| "get_numerical_fields v prefix = []"
| "numerical_fields_items [] prefix = []"
| "numerical_fields_items ((key, value) # rest) prefix =
     (let field_name = (if prefix \<noteq> [] then prefix @ ''.'' @ key else key)
      in (if is_dict value then get_numerical_fields value field_name
          else if is_int_or_float value then [field_name]
          else [])
         @ numerical_fields_items rest prefix)"



definition num_at :: "json \<Rightarrow> string list \<Rightarrow> nat" where
  "num_at v path = (case walk v path of Some w \<Rightarrow> if is_int_or_float w then 1 else 0 | None \<Rightarrow> 0)"

text \<open>
  The value lists \<^verbatim>\<open>gt_fields[field]\<close> and \<^verbatim>\<open>conv_fields[field]\<close> that
  \<^verbatim>\<open>_evaluate_information_content\<close> builds, and the keys of \<^verbatim>\<open>gt_fields\<close> in
  the order in which the loop meets them. A record appends its value of the field once
  for every time the field occurs among its numeric field names.
\<close>

definition gt_field_values :: "dict list \<Rightarrow> string \<Rightarrow> json list" where
  "gt_field_values ground_truth field =
     concat (map (\<lambda>entry.
       concat (map (\<lambda>f. if f = field
                         then (case get_nested_field entry f of Some v \<Rightarrow> [v] | None \<Rightarrow> [])
                         else [])
                   (get_numerical_fields (JDict entry) []))) ground_truth)"

definition gt_field_names :: "dict list \<Rightarrow> string list" where
  "gt_field_names ground_truth =
     concat (map (\<lambda>entry. get_numerical_fields (JDict entry) []) ground_truth)"

definition conv_field_values :: "dict list \<Rightarrow> string \<Rightarrow> json list" where
  "conv_field_values converted field =
     List.map_filter (\<lambda>entry. get_nested_field entry field) converted"

text \<open>
  The entry \<^verbatim>\<open>field_entropy_ratios[field]\<close> for one file pair: \<open>None\<close> when no
  entry is stored. \<^verbatim>\<open>conv_fields\<close> has the keys of \<^verbatim>\<open>gt_fields\<close> as soon as
  the converted dataset has a record. The mutual information computed before the entry
  is stored is not part of the model.
\<close>

definition field_entropy_ratio :: "dict list \<Rightarrow> dict list \<Rightarrow> string \<Rightarrow> json option" where
  "field_entropy_ratio ground_truth converted field =
     (if field \<in> set (gt_field_names ground_truth) \<and> converted \<noteq> [] then
        entropy_ratio (List.map_filter to_num (gt_field_values ground_truth field))
                      (List.map_filter to_num (conv_field_values converted field))
      else None)"

section \<open>The aligner returns the first nearest record\<close>

lemma to_num_Some_not_null: "to_num v = Some x \<Longrightarrow> v \<noteq> JNull"
  by (cases v) auto

lemma below_trans: "d < d' \<Longrightarrow> below d' m \<Longrightarrow> below d m"
  by (cases m) auto

lemma not_below_le: "\<not> below d' m \<Longrightarrow> below d m \<Longrightarrow> d < d'"
  by (cases m) auto

lemma loop_step_null:
  "py_get e ''time_unix'' = JNull \<Longrightarrow>
   find_closest_loop gt (e # es) (c0, m0) = find_closest_loop gt es (c0, m0)"
  by simp

lemma loop_step_num:
  assumes "to_num gt = Some T" "to_num (py_get e ''time_unix'') = Some t"
  shows "find_closest_loop gt (e # es) (c0, m0) =
     (if below \<bar>T - t\<bar> m0 then find_closest_loop gt es (Some e, Fin \<bar>T - t\<bar>)
      else find_closest_loop gt es (c0, m0))"
  using assms to_num_Some_not_null[OF assms(1)] to_num_Some_not_null[OF assms(2)]
  by (simp add: py_sub_def Let_def)

lemma loop_char:
  assumes "to_num gt = Some T" "times_ok es"
  shows "\<exists>c m. find_closest_loop gt es (c0, m0) = Inr (c, m) \<and>
        (if \<exists>e\<in>set es. \<exists>d. time_diff_to T e = Some d \<and> below d m0
         then \<exists>d. m = Fin d \<and> below d m0 \<and>
                  (\<forall>e\<in>set es. \<forall>d'. time_diff_to T e = Some d' \<longrightarrow> d \<le> d') \<and>
                  c = List.find (\<lambda>e. time_diff_to T e = Some d) es \<and> c \<noteq> None
         else c = c0 \<and> m = m0)"
  using assms(2)
proof (induction es arbitrary: c0 m0)
  case Nil
  then show ?case by simp
next
  case (Cons e es)
  from Cons.prems have ok: "times_ok es"
    and e_ok: "py_get e ''time_unix'' = JNull \<or> to_num (py_get e ''time_unix'') \<noteq> None"
    by (simp_all add: times_ok_def)
  show ?case
  proof (cases "py_get e ''time_unix'' = JNull")
    case True
    then have td: "time_diff_to T e = None" by (simp add: time_diff_to_def)
    from Cons.IH[OF ok, of c0 m0] td True show ?thesis
      by (simp only: loop_step_null[OF True]) (auto split: if_splits)
  next
    case False
    with e_ok obtain t where t: "to_num (py_get e ''time_unix'') = Some t" by auto
    then have td: "time_diff_to T e = Some \<bar>T - t\<bar>" by (simp add: time_diff_to_def)
    show ?thesis
    proof (cases "below \<bar>T - t\<bar> m0")
      case True
      from Cons.IH[OF ok, of "Some e" "Fin \<bar>T - t\<bar>"]
      obtain c m where res: "find_closest_loop gt es (Some e, Fin \<bar>T - t\<bar>) = Inr (c, m)"
        and ch: "(if \<exists>e'\<in>set es. \<exists>d. time_diff_to T e' = Some d \<and> below d (Fin \<bar>T - t\<bar>)
         then \<exists>d. m = Fin d \<and> below d (Fin \<bar>T - t\<bar>) \<and>
                  (\<forall>e\<in>set es. \<forall>d'. time_diff_to T e = Some d' \<longrightarrow> d \<le> d') \<and>
                  c = List.find (\<lambda>e. time_diff_to T e = Some d) es \<and> c \<noteq> None
         else c = Some e \<and> m = Fin \<bar>T - t\<bar>)" by blast
      have step: "find_closest_loop gt (e # es) (c0, m0) = Inr (c, m)"
        using loop_step_num[OF assms(1) t, of es c0 m0] True res by simp
      have ex: "\<exists>e'\<in>set (e # es). \<exists>d. time_diff_to T e' = Some d \<and> below d m0"
        using td True by auto
      show ?thesis
      proof (cases "\<exists>e'\<in>set es. \<exists>d. time_diff_to T e' = Some d \<and> d < \<bar>T - t\<bar>")
        case True
        with ch obtain d where d: "m = Fin d" "d < \<bar>T - t\<bar>"
          "\<forall>e\<in>set es. \<forall>d'. time_diff_to T e = Some d' \<longrightarrow> d \<le> d'"
          "c = List.find (\<lambda>e. time_diff_to T e = Some d) es" "c \<noteq> None" by auto
        have "below d m0" using below_trans[OF d(2) \<open>below \<bar>T - t\<bar> m0\<close>] .
        moreover have "\<forall>e'\<in>set (e # es). \<forall>d'. time_diff_to T e' = Some d' \<longrightarrow> d \<le> d'"
          using d(2,3) td by auto
        moreover have "c = List.find (\<lambda>e. time_diff_to T e = Some d) (e # es)"
          using d(2,4) td by auto
        ultimately show ?thesis using step ex d(1,5) by auto
      next
        case False
        with ch have cm: "c = Some e" "m = Fin \<bar>T - t\<bar>" by auto
        have "\<forall>e'\<in>set (e # es). \<forall>d'. time_diff_to T e' = Some d' \<longrightarrow> \<bar>T - t\<bar> \<le> d'"
          using False td by force
        moreover have "c = List.find (\<lambda>e. time_diff_to T e = Some \<bar>T - t\<bar>) (e # es)"
          using cm td by simp
        ultimately show ?thesis using step ex cm \<open>below \<bar>T - t\<bar> m0\<close> by auto
      qed
    next
      case False
      have step: "find_closest_loop gt (e # es) (c0, m0) = find_closest_loop gt es (c0, m0)"
        using loop_step_num[OF assms(1) t, of es c0 m0] False by simp
      from Cons.IH[OF ok, of c0 m0]
      obtain c m where res: "find_closest_loop gt es (c0, m0) = Inr (c, m)"
        and ch: "(if \<exists>e'\<in>set es. \<exists>d. time_diff_to T e' = Some d \<and> below d m0
         then \<exists>d. m = Fin d \<and> below d m0 \<and>
                  (\<forall>e\<in>set es. \<forall>d'. time_diff_to T e = Some d' \<longrightarrow> d \<le> d') \<and>
                  c = List.find (\<lambda>e. time_diff_to T e = Some d) es \<and> c \<noteq> None
         else c = c0 \<and> m = m0)" by auto
      show ?thesis
      proof (cases "\<exists>e'\<in>set es. \<exists>d. time_diff_to T e' = Some d \<and> below d m0")
        case True
        with ch obtain d where d: "m = Fin d" "below d m0"
          "\<forall>e\<in>set es. \<forall>d'. time_diff_to T e = Some d' \<longrightarrow> d \<le> d'"
          "c = List.find (\<lambda>e. time_diff_to T e = Some d) es" "c \<noteq> None" by auto
        have lt: "d < \<bar>T - t\<bar>" using not_below_le[OF False d(2)] .
        have "\<forall>e'\<in>set (e # es). \<forall>d'. time_diff_to T e' = Some d' \<longrightarrow> d \<le> d'"
          using lt d(3) td by auto
        moreover have "c = List.find (\<lambda>e. time_diff_to T e = Some d) (e # es)"
          using lt d(4) td by auto
        moreover have "\<exists>e'\<in>set (e # es). \<exists>d. time_diff_to T e' = Some d \<and> below d m0"
          using True by auto
        ultimately show ?thesis using step res d(1,2,5) by auto
      next
        case F2: False
        with ch have cm: "c = c0" "m = m0" by auto
        have "\<not> (\<exists>e'\<in>set (e # es). \<exists>d. time_diff_to T e' = Some d \<and> below d m0)"
          using F2 False td by auto
        then show ?thesis using step res cm by auto
      qed
    qed
  qed
qed


text \<open>
  Claim C1. Let the ground-truth timestamp be the number \<open>T\<close> and let every converted
  timestamp be a number or absent. If some converted record has \<^verbatim>\<open>time_unix\<close>
  equal to \<open>T\<close>, the aligner returns a record with difference zero. Whenever a record
  carries a numeric timestamp a record is returned, and the returned pair \<open>(c, d)\<close> is
  such that \<open>d\<close> is the least difference of the dataset and \<open>c\<close> is the first
  record, in iteration order, whose difference is \<open>d\<close>.
\<close>

theorem aligner_exact_match_first_wins:
  assumes "to_num gt_time = Some T" and "times_ok converted_data"
  shows "((\<exists>e\<in>set converted_data. to_num (py_get e ''time_unix'') = Some T) \<longrightarrow>
            (\<exists>c. find_closest gt_time converted_data = Inr (Some c, Fin 0))) \<and>
         ((\<exists>e\<in>set converted_data. time_diff_to T e \<noteq> None) \<longrightarrow>
            (\<exists>c d. find_closest gt_time converted_data = Inr (Some c, Fin d))) \<and>
         (\<forall>c d. find_closest gt_time converted_data = Inr (Some c, Fin d) \<longrightarrow>
            (\<forall>e\<in>set converted_data. \<forall>d'. time_diff_to T e = Some d' \<longrightarrow> d \<le> d') \<and>
            List.find (\<lambda>e. time_diff_to T e = Some d) converted_data = Some c)"
proof -
  let ?some = "\<exists>e\<in>set converted_data. \<exists>d. time_diff_to T e = Some d \<and> below d PInf"
  from loop_char[OF assms, of None PInf]
  obtain c m where res: "find_closest gt_time converted_data = Inr (c, m)"
    and ch: "if ?some
         then \<exists>d. m = Fin d \<and> below d PInf \<and>
                  (\<forall>e\<in>set converted_data. \<forall>d'. time_diff_to T e = Some d' \<longrightarrow> d \<le> d') \<and>
                  c = List.find (\<lambda>e. time_diff_to T e = Some d) converted_data \<and> c \<noteq> None
         else c = None \<and> m = PInf"
    unfolding find_closest_def by blast
  have nonneg: "\<And>e d. time_diff_to T e = Some d \<Longrightarrow> 0 \<le> d"
    by (auto simp: time_diff_to_def)
  have exact: "\<exists>c. find_closest gt_time converted_data = Inr (Some c, Fin 0)"
    if "\<exists>e\<in>set converted_data. to_num (py_get e ''time_unix'') = Some T"
  proof -
    from that obtain e where e: "e \<in> set converted_data" "time_diff_to T e = Some 0"
      by (auto simp: time_diff_to_def)
    then have ?some by auto
    with ch obtain d where d: "m = Fin d"
      "\<forall>e\<in>set converted_data. \<forall>d'. time_diff_to T e = Some d' \<longrightarrow> d \<le> d'"
      "c = List.find (\<lambda>e. time_diff_to T e = Some d) converted_data" "c \<noteq> None" by auto
    from d(2) e have "d \<le> 0" by blast
    moreover from d(3,4) obtain c' where "c = Some c'" "time_diff_to T c' = Some d"
      by (auto simp: find_Some_iff)
    ultimately show ?thesis using res d(1) nonneg[of c' d] by auto
  qed
  have anyone: "\<exists>c d. find_closest gt_time converted_data = Inr (Some c, Fin d)"
    if "\<exists>e\<in>set converted_data. time_diff_to T e \<noteq> None"
  proof -
    from that have ?some by auto
    with ch res show ?thesis by auto
  qed
  have first: "(\<forall>e\<in>set converted_data. \<forall>d'. time_diff_to T e = Some d' \<longrightarrow> d \<le> d') \<and>
            List.find (\<lambda>e. time_diff_to T e = Some d) converted_data = Some c'"
    if "find_closest gt_time converted_data = Inr (Some c', Fin d)" for c' d
  proof -
    from that res have cm: "c = Some c'" "m = Fin d" by auto
    with ch have ?some by (auto split: if_splits)
    with ch cm show ?thesis by auto
  qed
  from exact anyone first show ?thesis by blast
qed

theorem aligner_exact_match_first_wins_witness:
  "to_num (JFloat 10) = Some 10 \<and>
   times_ok [[(''time_unix'', JFloat 9), (''id'', JInt 0)],
             [(''time_unix'', JInt 10), (''id'', JInt 1)],
             [(''time_unix'', JFloat 10), (''id'', JInt 2)],
             [(''id'', JInt 3)]] \<and>
   find_closest (JFloat 10)
            [[(''time_unix'', JFloat 9), (''id'', JInt 0)],
             [(''time_unix'', JInt 10), (''id'', JInt 1)],
             [(''time_unix'', JFloat 10), (''id'', JInt 2)],
             [(''id'', JInt 3)]]
     = Inr (Some [(''time_unix'', JInt 10), (''id'', JInt 1)], Fin 0) \<and>
   List.find (\<lambda>e. time_diff_to 10 e = Some 0)
            [[(''time_unix'', JFloat 9), (''id'', JInt 0)],
             [(''time_unix'', JInt 10), (''id'', JInt 1)],
             [(''time_unix'', JFloat 10), (''id'', JInt 2)],
             [(''id'', JInt 3)]]
     = Some [(''time_unix'', JInt 10), (''id'', JInt 1)]"
  using aligner_exact_match_first_wins [of "JFloat 10" 10
            "[[(''time_unix'', JFloat 9), (''id'', JInt 0)],
             [(''time_unix'', JInt 10), (''id'', JInt 1)],
             [(''time_unix'', JFloat 10), (''id'', JInt 2)],
             [(''id'', JInt 3)]]"]
  by (simp add: times_ok_def time_diff_to_def py_get_def find_closest_def py_sub_def)

section \<open>Which exceptions the calculators can raise\<close>

lemma py_sub_err: "py_sub x y = Inl e \<Longrightarrow> e = TypeError"
  by (auto simp: py_sub_def split: option.splits)

lemma py_mul_err: "py_mul x y = Inl e \<Longrightarrow> e = TypeError"
  by (auto simp: py_mul_def split: option.splits)

lemma find_closest_loop_err: "find_closest_loop gt_time es st = Inl e \<Longrightarrow> e = TypeError"
proof (induction gt_time es st rule: find_closest_loop.induct)
  case (1 gt_time st)
  then show ?case by simp
next
  case (2 gt_time conv_entry rest closest_entry min_time_diff)
  show ?case
  proof (cases "py_get conv_entry ''time_unix'' \<noteq> JNull \<and> gt_time \<noteq> JNull")
    case False
    with "2.prems" "2.IH"(3) show ?thesis by (simp add: Let_def)
  next
    case True
    show ?thesis
    proof (cases "py_sub gt_time (py_get conv_entry ''time_unix'')")
      case (Inl e')
      with True "2.prems" py_sub_err[OF Inl] show ?thesis by (simp add: Let_def)
    next
      case (Inr d)
      with True "2.prems" "2.IH"(1)[OF refl True Inr refl] "2.IH"(2)[OF refl True Inr refl]
      show ?thesis by (simp add: Let_def split: if_splits)
    qed
  qed
qed

lemma find_closest_err: "find_closest gt_time es = Inl e \<Longrightarrow> e = TypeError"
  unfolding find_closest_def by (rule find_closest_loop_err)

lemma entry_error_err:
  assumes "entry_error tol pair_error g conv = Inl e"
  shows "e = TypeError \<or> (\<exists>c. pair_error g c = Inl e)"
  using assms
  by (auto simp: entry_error_def split: sum.splits option.splits if_splits prod.splits
           dest: find_closest_err)

lemma match_errors_err:
  "match_errors tol pair_error gt conv = Inl e \<Longrightarrow>
   e = TypeError \<or> (\<exists>g c. pair_error g c = Inl e)"
proof (induction gt)
  case Nil
  then show ?case by simp
next
  case (Cons g gt)
  then show ?case
    by (auto split: sum.splits dest: entry_error_err)
qed

lemma match_errors_length:
  "match_errors tol pair_error gt conv = Inr errors \<Longrightarrow> length errors \<le> length gt"
proof (induction gt arbitrary: errors)
  case Nil
  then show ?case by simp
next
  case (Cons g gt)
  then show ?case
    by (fastforce split: sum.splits option.splits)
qed

lemma get_nested_field_num: "get_nested_field d f = Some v \<Longrightarrow> \<exists>x. to_num v = Some x"
  by (cases v) (auto simp: get_nested_field_def split: option.splits if_splits)

lemma field_pair_error_total: "field_pair_error field g c \<noteq> Inl e"
  by (auto simp: field_pair_error_def py_sub_def split: option.splits sum.splits
           dest!: get_nested_field_num)

lemma attr_get0_err: "attr_get0 obj key = Inl e \<Longrightarrow> e = AttributeError"
  by (auto simp: attr_get0_def split: json.splits)

lemma abs_diff0_err: "abs_diff0 a b key = Inl e \<Longrightarrow> e = AttributeError \<or> e = TypeError"
  by (auto simp: abs_diff0_def split: sum.splits dest: attr_get0_err py_sub_err)

lemma num_attr0_err: "num_attr0 a key = Inl e \<Longrightarrow> e = AttributeError \<or> e = TypeError"
  by (auto simp: num_attr0_def split: sum.splits option.splits dest: attr_get0_err)

lemma position_pair_error_err:
  "position_pair_error g c = Inl e \<Longrightarrow> e = AttributeError \<or> e = TypeError"
  by (auto simp: position_pair_error_def Let_def split: if_splits sum.splits
           dest: abs_diff0_err num_attr0_err)

lemma acceleration_pair_error_err:
  "acceleration_pair_error g c = Inl e \<Longrightarrow> e = AttributeError \<or> e = TypeError"
  by (auto simp: acceleration_pair_error_def Let_def split: if_splits sum.splits
           dest: abs_diff0_err)

lemma quaternion_err: "quaternion obj = Inl e \<Longrightarrow> e = AttributeError"
  by (auto simp: quaternion_def split: json.splits)

lemma orientation_pair_error_err:
  "orientation_pair_error g c = Inl e \<Longrightarrow> e = AttributeError \<or> e = TypeError"
  by (auto simp: orientation_pair_error_def Let_def split: if_splits sum.splits prod.splits
           dest: quaternion_err py_mul_err)

lemma py_div_ok: "b \<noteq> 0 \<Longrightarrow> py_div a b = Inr (a / b)"
  by (simp add: py_div_def)

lemma field_stats_ok:
  "length errors \<le> length gt \<Longrightarrow> \<exists>stats. field_stats gt field errors = Inr stats"
  by (cases errors) (auto simp: field_stats_def Let_def py_div_def)

lemma error_stats_ok:
  "length errors \<le> n \<Longrightarrow> \<exists>stats. error_stats what n errors = Inr stats"
  by (cases errors) (auto simp: error_stats_def py_div_def)












lemma match_errors_no_converted: "match_errors tol pair_error gt [] = Inr []"
  by (induction gt) (simp_all add: entry_error_def find_closest_def)

lemma field_stats_keys:
  "field_stats gt field errors = Inr stats \<Longrightarrow> map fst stats = map fst no_field_stats"
  by (auto simp: field_stats_def no_field_stats_def Let_def split: if_splits sum.splits)

lemma error_stats_keys:
  "error_stats what n errors = Inr stats \<Longrightarrow> map fst stats = map fst (no_error_stats what)"
  by (auto simp: error_stats_def no_error_stats_def split: if_splits sum.splits)

lemma calculate_field_errors_no_converted:
  "calculate_field_errors gt [] fields = Inr (map (\<lambda>f. (f, no_field_stats)) fields)"
  by (induction fields)
     (simp_all add: field_errors_def match_errors_no_converted field_stats_def)





























section \<open>Field resolution\<close>

lemma walk_reaches: "walk v segs = Some w \<longleftrightarrow> reaches v segs w"
proof
  show "walk v segs = Some w \<Longrightarrow> reaches v segs w"
    by (induction v segs rule: walk.induct)
       (auto intro: reaches.intros split: option.splits)
  show "reaches v segs w \<Longrightarrow> walk v segs = Some w"
    by (induction rule: reaches.induct) auto
qed

lemma reaches_functional: "reaches v segs w \<Longrightarrow> reaches v segs w' \<Longrightarrow> w = w'"
  using walk_reaches by (metis option.inject)

text \<open>
  Claim C3, as amended. \<^verbatim>\<open>_get_nested_field\<close> returns the terminal value when every
  intermediate node is a mapping containing the next segment and the terminal value
  passes \<^verbatim>\<open>isinstance(value, (int, float))\<close>; in every other case it returns
  \<^verbatim>\<open>None\<close>. The function is total: no input raises. The values that pass the
  test are the ints and floats of the specification and, in addition, the booleans.
\<close>

theorem get_nested_field_resolves:
  "(reaches (JDict data) (split_dot field_path) v \<and> is_int_or_float v
      \<longrightarrow> get_nested_field data field_path = Some v) \<and>
   ((\<nexists>w. reaches (JDict data) (split_dot field_path) w \<and> is_int_or_float w)
      \<longrightarrow> get_nested_field data field_path = None) \<and>
   (is_int_or_float v \<longleftrightarrow> spec_numeric v \<or> (\<exists>b. v = JBool b))"
proof (intro conjI impI)
  assume "reaches (JDict data) (split_dot field_path) v \<and> is_int_or_float v"
  then show "get_nested_field data field_path = Some v"
    by (simp add: get_nested_field_def walk_reaches[symmetric])
next
  assume none: "\<nexists>w. reaches (JDict data) (split_dot field_path) w \<and> is_int_or_float w"
  show "get_nested_field data field_path = None"
  proof (cases "walk (JDict data) (split_dot field_path)")
    case None
    then show ?thesis by (simp add: get_nested_field_def)
  next
    case (Some w)
    with none have "\<not> is_int_or_float w" by (auto simp: walk_reaches)
    with Some show ?thesis by (simp add: get_nested_field_def)
  qed
next
  show "is_int_or_float v \<longleftrightarrow> spec_numeric v \<or> (\<exists>b. v = JBool b)"
    by (cases v) auto
qed

theorem get_nested_field_resolves_witness:
  "reaches (JDict [(''position_lla'', JDict [(''latitude_deg'', JFloat 22)])])
           (split_dot ''position_lla.latitude_deg'') (JFloat 22) \<and>
   get_nested_field [(''position_lla'', JDict [(''latitude_deg'', JFloat 22)])]
           ''position_lla.latitude_deg'' = Some (JFloat 22) \<and>
   get_nested_field [(''position_lla'', JDict [(''latitude_deg'', JFloat 22)])]
           ''position_lla.altitude_m'' = None"
proof -
  let ?d = "[(''position_lla'', JDict [(''latitude_deg'', JFloat 22)])]"
  have r: "reaches (JDict ?d) (split_dot ''position_lla.latitude_deg'') (JFloat 22)"
    by (simp add: walk_reaches[symmetric])
  have n: "\<nexists>w. reaches (JDict ?d) (split_dot ''position_lla.altitude_m'') w \<and> is_int_or_float w"
    by (simp add: walk_reaches[symmetric])
  from get_nested_field_resolves[of ?d "''position_lla.latitude_deg''" "JFloat 22"] r
  have a: "get_nested_field ?d ''position_lla.latitude_deg'' = Some (JFloat 22)" by simp
  from get_nested_field_resolves[of ?d "''position_lla.altitude_m''" "JNull"] n
  have b: "get_nested_field ?d ''position_lla.altitude_m'' = None" by blast
  from r a b show ?thesis by blast
qed

text \<open>
  Claim C3 as stated fails: a boolean terminal value is not numeric for the
  specification, yet it is returned.
\<close>

theorem boolean_terminal_returned:
  "reaches (JDict [(''valid'', JBool True)]) (split_dot ''valid'') (JBool True) \<and>
   \<not> spec_numeric (JBool True) \<and>
   get_nested_field [(''valid'', JBool True)] ''valid'' = Some (JBool True)"
  by (simp add: walk_reaches[symmetric] get_nested_field_def)

section \<open>Geodetic to earth-centred coordinates\<close>

lemma lla_absent: "lat = None \<or> lon = None \<or> alt = None \<Longrightarrow> lla_to_ecef lat lon alt = None"
  by (auto simp: lla_to_ecef_def split: option.splits)

lemma lla_present:
  "lla_to_ecef (Some lat) (Some lon) (Some alt) =
     Some ((wgs84_N lat + alt) * cos (radians lat) * cos (radians lon),
           (wgs84_N lat + alt) * cos (radians lat) * sin (radians lon),
           (wgs84_N lat * (1 - wgs84_e_sq) + alt) * sin (radians lat))"
  by (simp add: lla_to_ecef_def Let_def wgs84_N_def wgs84_e_sq_def wgs84_f_def wgs84_a_def)

lemma e_sq_square: "1 - wgs84_e_sq = (1 - wgs84_f) ^ 2"
  by (simp add: wgs84_e_sq_def power2_eq_square algebra_simps)

lemma f_small: "0 < 1 - wgs84_f"
  by (simp add: wgs84_f_def)

lemma equator: "lla_to_ecef (Some 0) (Some 0) (Some 0) = Some (6378137, 0, 0)"
  by (simp add: lla_present radians_def wgs84_N_def wgs84_a_def)

lemma pole_z: "wgs84_N 90 * (1 - wgs84_e_sq) = wgs84_a * (1 - wgs84_f)"
proof -
  have r: "radians 90 = pi / 2" by (simp add: radians_def)
  have "sqrt (1 - wgs84_e_sq) = 1 - wgs84_f"
    using f_small by (simp add: e_sq_square)
  then have "wgs84_N 90 = wgs84_a / (1 - wgs84_f)"
    by (simp add: wgs84_N_def r)
  then show ?thesis using f_small by (simp add: e_sq_square power2_eq_square)
qed

lemma pole: "lla_to_ecef (Some 90) (Some 0) (Some 0) = Some (0, 0, wgs84_a * (1 - wgs84_f))"
proof -
  have r: "radians 90 = pi / 2" by (simp add: radians_def)
  show ?thesis using pole_z by (simp add: lla_present r radians_def)
qed

lemma pole_value: "\<bar>wgs84_a * (1 - wgs84_f) - 6356752.3\<bar> < 0.02"
  by (simp add: wgs84_a_def wgs84_f_def abs_if)

text \<open>
  Claim C4. \<^verbatim>\<open>_lla_to_ecef\<close> returns \<^verbatim>\<open>None\<close> when the latitude, the longitude
  or the altitude is absent. For present inputs it is the WGS-84 transform of the
  specification; in exact arithmetic \<open>(0, 0, 0)\<close> goes to \<open>(6378137, 0, 0)\<close> and
  \<open>(90, 0, 0)\<close> to \<open>(0, 0, z)\<close> with \<open>z\<close> within 0.02 m of 6356752.3.
\<close>

theorem lla_to_ecef_wgs84:
  "(lat = None \<or> lon = None \<or> alt = None \<longrightarrow> lla_to_ecef lat lon alt = None) \<and>
   lla_to_ecef (Some la) (Some lo) (Some al) =
     Some ((wgs84_N la + al) * cos (radians la) * cos (radians lo),
           (wgs84_N la + al) * cos (radians la) * sin (radians lo),
           (wgs84_N la * (1 - wgs84_e_sq) + al) * sin (radians la)) \<and>
   lla_to_ecef (Some 0) (Some 0) (Some 0) = Some (6378137, 0, 0) \<and>
   (\<exists>z. lla_to_ecef (Some 90) (Some 0) (Some 0) = Some (0, 0, z) \<and> \<bar>z - 6356752.3\<bar> < 0.02)"
  using lla_absent[of lat lon alt] lla_present[of la lo al] equator pole pole_value by blast

theorem lla_to_ecef_wgs84_witness:
  "lla_to_ecef None (Some 114) (Some 10) = None \<and>
   lla_to_ecef (Some 22) None (Some 10) = None \<and>
   lla_to_ecef (Some 22) (Some 114) None = None"
  using lla_to_ecef_wgs84 [of None "Some 114" "Some 10"]
        lla_to_ecef_wgs84 [of "Some 22" None "Some 10"]
        lla_to_ecef_wgs84 [of "Some 22" "Some 114" None]
  by simp

section \<open>Frequency response\<close>

lemma calculate_psd_raises: "10 \<le> length s \<Longrightarrow> calculate_psd s = Inl AttributeError"
  by (simp add: calculate_psd_def)

lemma calculate_psd_result: "calculate_psd s = Inr psd \<Longrightarrow> psd = []"
  by (simp add: calculate_psd_def split: if_splits)

lemma frequency_response_raises:
  "10 < min (length gt) (length conv) \<Longrightarrow> frequency_response True gt conv = Inl AttributeError"
  by (auto simp: frequency_response_def Let_def calculate_psd_def)

lemma frequency_response_never_some: "frequency_response is_imu gt conv \<noteq> Inr (Some corr)"
  by (auto simp: frequency_response_def Let_def split: sum.splits if_splits
           dest: calculate_psd_result)

text \<open>
  Claim C2 against the code. The frequency-response step never stores a correlation.
  For an IMU field with 11 samples in both datasets the call of
  \<^verbatim>\<open>_calculate_psd\<close> raises AttributeError, which nothing catches; with exactly 10
  samples the gate \<^verbatim>\<open>min_len > 10\<close> skips the step, although
  \<^verbatim>\<open>_calculate_psd\<close> itself accepts 10 samples.
\<close>

theorem welch_correlation_never_computed:
  "frequency_response is_imu gt conv \<noteq> Inr (Some corr) \<and>
   frequency_response True [0, 1, 0, 1, 0, 1, 0, 1, 0, 1, 0] [0, 1, 0, 1, 0, 1, 0, 1, 0, 1, 0]
     = Inl AttributeError \<and>
   frequency_response True [0, 1, 0, 1, 0, 1, 0, 1, 0, 1] [0, 1, 0, 1, 0, 1, 0, 1, 0, 1]
     = Inr None \<and>
   calculate_psd [0, 1, 0, 1, 0, 1, 0, 1, 0, 1] = Inl AttributeError"
  using frequency_response_never_some[of is_imu gt conv corr]
  by (simp add: frequency_response_def calculate_psd_def)

section \<open>Alignment tolerance\<close>




section \<open>An empty converted dataset\<close>

text \<open>
  Claim C6, as amended. With an empty converted record list no calculator raises; the
  per-field calculator returns for every field, and the position, orientation and
  acceleration calculators return, zero matched points, a matched percentage of 0 and
  \<^verbatim>\<open>None\<close> for every other statistic. The keys of these results are the same
  whether or not samples were collected. The timestamp conversion metric stores no
  entry for the file, and the information content metric no entropy ratio for any
  field.
\<close>

theorem empty_converted_reports_none:
  "calculate_field_errors gt [] fields = Inr (map (\<lambda>f. (f, no_field_stats)) fields) \<and>
   calculate_position_error gt [] = Inr (no_error_stats ''position_error_m'') \<and>
   calculate_orientation_error gt [] = Inr (no_error_stats ''orientation_error_deg'') \<and>
   calculate_acceleration_error gt [] = Inr (no_error_stats ''acceleration_error_mps2'') \<and>
   (field_stats gt' field errors = Inr stats \<longrightarrow> map fst stats = map fst no_field_stats) \<and>
   (error_stats what n errors = Inr stats' \<longrightarrow> map fst stats' = map fst (no_error_stats what)) \<and>
   timestamp_conversion_error gt [] = Inr None \<and>
   field_entropy_ratio gt [] field' = None"
  using field_stats_keys[of gt' field errors stats] error_stats_keys[of what n errors stats']
  by (simp add: calculate_field_errors_no_converted calculate_position_error_def
        calculate_orientation_error_def calculate_acceleration_error_def
        match_errors_no_converted error_stats_def timestamp_conversion_error_def timestamps_def
        field_entropy_ratio_def)

theorem empty_converted_reports_none_witness:
  "field_stats [[(''time_unix'', JInt 0), (''dop'', JDict [(''hdop'', JInt 2)])]] ''dop.hdop'' [1]
     = Inr [(''mae'', JFloat 1), (''rmse'', JFloat 1), (''nrmse'', JNull),
            (''max_error'', JFloat 1), (''min_error'', JFloat 1), (''std_error'', JFloat 0),
            (''num_matched_points'', JInt 1), (''matched_percentage'', JFloat 100)] \<and>
   map fst [(''mae'', JFloat 1), (''rmse'', JFloat 1), (''nrmse'', JNull),
            (''max_error'', JFloat 1), (''min_error'', JFloat 1), (''std_error'', JFloat 0),
            (''num_matched_points'', JInt 1), (''matched_percentage'', JFloat 100)]
     = map fst no_field_stats \<and>
   error_stats ''position_error_m'' 1 [1]
     = Inr [(''mean_position_error_m'', JFloat 1), (''max_position_error_m'', JFloat 1),
            (''min_position_error_m'', JFloat 1), (''std_position_error_m'', JFloat 0),
            (''num_matched_points'', JInt 1), (''matched_percentage'', JFloat 100)] \<and>
   map fst [(''mean_position_error_m'', JFloat 1), (''max_position_error_m'', JFloat 1),
            (''min_position_error_m'', JFloat 1), (''std_position_error_m'', JFloat 0),
            (''num_matched_points'', JInt 1), (''matched_percentage'', JFloat 100)]
     = map fst (no_error_stats ''position_error_m'') \<and>
   calculate_field_errors [[(''time_unix'', JInt 0), (''dop'', JDict [(''hdop'', JInt 2)])]] []
       [''dop.hdop'', ''dop.vdop'']
     = Inr [(''dop.hdop'', no_field_stats), (''dop.vdop'', no_field_stats)]"
proof -
  let ?gt = "[[(''time_unix'', JInt 0), (''dop'', JDict [(''hdop'', JInt 2)])]]"
  have fs: "field_stats ?gt ''dop.hdop'' [1]
     = Inr [(''mae'', JFloat 1), (''rmse'', JFloat 1), (''nrmse'', JNull),
            (''max_error'', JFloat 1), (''min_error'', JFloat 1), (''std_error'', JFloat 0),
            (''num_matched_points'', JInt 1), (''matched_percentage'', JFloat 100)]"
    by (simp add: field_stats_def Let_def np_mean_def np_max_def np_min_def np_std_def
          py_div_def List.map_filter_simps get_nested_field_def)
  have es: "error_stats ''position_error_m'' 1 [1]
     = Inr [(''mean_position_error_m'', JFloat 1), (''max_position_error_m'', JFloat 1),
            (''min_position_error_m'', JFloat 1), (''std_position_error_m'', JFloat 0),
            (''num_matched_points'', JInt 1), (''matched_percentage'', JFloat 100)]"
    by (simp add: error_stats_def np_mean_def np_max_def np_min_def np_std_def py_div_def)
  let ?s = "[(''mae'', JFloat 1), (''rmse'', JFloat 1), (''nrmse'', JNull),
            (''max_error'', JFloat 1), (''min_error'', JFloat 1), (''std_error'', JFloat 0),
            (''num_matched_points'', JInt 1), (''matched_percentage'', JFloat 100)]"
  let ?s' = "[(''mean_position_error_m'', JFloat 1), (''max_position_error_m'', JFloat 1),
            (''min_position_error_m'', JFloat 1), (''std_position_error_m'', JFloat 0),
            (''num_matched_points'', JInt 1), (''matched_percentage'', JFloat 100)]"
  note T = empty_converted_reports_none[where gt = ?gt and fields = "[''dop.hdop'', ''dop.vdop'']"
      and gt' = ?gt and field = "''dop.hdop''" and errors = "[1]" and stats = ?s
      and what = "''position_error_m''" and n = 1 and stats' = ?s']
  from T fs have k: "map fst ?s = map fst no_field_stats" by blast
  from T es have k': "map fst ?s' = map fst (no_error_stats ''position_error_m'')" by blast
  from T have "calculate_field_errors ?gt [] [''dop.hdop'', ''dop.vdop'']
      = Inr (map (\<lambda>f. (f, no_field_stats)) [''dop.hdop'', ''dop.vdop''])" by (rule conjunct1)
  then have c: "calculate_field_errors ?gt [] [''dop.hdop'', ''dop.vdop'']
      = Inr [(''dop.hdop'', no_field_stats), (''dop.vdop'', no_field_stats)]"
    by (simp only: list.map)
  from fs k es k' c show ?thesis by blast
qed

text \<open>
  Claim C6 as stated fails for the timestamp conversion metric: with an empty converted
  list it has no result for the file, hence none of the keys it has when data is
  available, and no \<^verbatim>\<open>num_matched_points\<close>.
\<close>

theorem timestamp_entry_missing_when_converted_empty:
  "timestamp_conversion_error [[(''time_unix'', JInt 0)]] [] = Inr None \<and>
   timestamp_conversion_error [[(''time_unix'', JInt 0)]] [[(''time_unix'', JInt 0)]]
     = Inr (Some [(''mean_error_us'', JFloat 0), (''max_error_us'', JFloat 0),
                  (''min_error_us'', JFloat 0), (''std_error_us'', JFloat 0)])"
  by (simp add: py_get_def py_sub_def timestamp_conversion_error_def
        timestamps_def closest_time_def np_mean_def np_max_def np_min_def np_std_def)

section \<open>Records with a missing field\<close>




section \<open>Entropy ratio\<close>






















lemma walk_non_dict: "\<forall>d. v \<noteq> JDict d \<Longrightarrow> walk v (s # p) = None"
  by (cases v) auto

lemma num_at_non_dict: "\<forall>d. v \<noteq> JDict d \<Longrightarrow> num_at v (s # p) = 0"
  by (simp add: num_at_def walk_non_dict)



lemma is_dict_iff: "is_dict v \<longleftrightarrow> (\<exists>d. v = JDict d)"
  by (cases v) auto























section \<open>Order of the records\<close>




section \<open>The match percentage\<close>

lemma field_errors_no_zero_div: "field_errors gt conv field \<noteq> Inl ZeroDivisionError"
proof (cases "match_errors (1 / 10) (field_pair_error field) gt conv")
  case (Inl e)
  with match_errors_err[OF Inl] field_pair_error_total show ?thesis
    by (auto simp: field_errors_def)
next
  case (Inr errors)
  with field_stats_ok[OF match_errors_length[OF Inr], of field] show ?thesis
    by (auto simp: field_errors_def)
qed

lemma calculate_field_errors_no_zero_div:
  "calculate_field_errors gt conv fields \<noteq> Inl ZeroDivisionError"
  by (induction fields) (auto split: sum.splits simp: field_errors_no_zero_div)

lemma calculate_field_errors_empty_gt:
  "calculate_field_errors [] conv fields = Inr (map (\<lambda>f. (f, no_field_stats)) fields)"
  by (induction fields) (auto simp: field_errors_def field_stats_def)

lemma calculate_position_error_no_zero_div:
  "calculate_position_error gt conv \<noteq> Inl ZeroDivisionError"
proof (cases "match_errors 1 position_pair_error gt conv")
  case (Inl e)
  with match_errors_err[OF Inl] show ?thesis
    by (auto simp: calculate_position_error_def dest: position_pair_error_err)
next
  case (Inr errors)
  with error_stats_ok[OF match_errors_length[OF Inr], of "''position_error_m''"] show ?thesis
    by (auto simp: calculate_position_error_def)
qed

lemma calculate_orientation_error_no_zero_div:
  "calculate_orientation_error gt conv \<noteq> Inl ZeroDivisionError"
proof (cases "match_errors (1 / 10) orientation_pair_error gt conv")
  case (Inl e)
  with match_errors_err[OF Inl] show ?thesis
    by (auto simp: calculate_orientation_error_def dest: orientation_pair_error_err)
next
  case (Inr errors)
  with error_stats_ok[OF match_errors_length[OF Inr], of "''orientation_error_deg''"] show ?thesis
    by (auto simp: calculate_orientation_error_def)
qed

lemma calculate_acceleration_error_no_zero_div:
  "calculate_acceleration_error gt conv \<noteq> Inl ZeroDivisionError"
proof (cases "match_errors (1 / 10) acceleration_pair_error gt conv")
  case (Inl e)
  with match_errors_err[OF Inl] show ?thesis
    by (auto simp: calculate_acceleration_error_def dest: acceleration_pair_error_err)
next
  case (Inr errors)
  with error_stats_ok[OF match_errors_length[OF Inr], of "''acceleration_error_mps2''"] show ?thesis
    by (auto simp: calculate_acceleration_error_def)
qed

text \<open>
  Claim C10. No error calculator raises ZeroDivisionError: an error sample comes from
  one ground-truth record each, so the division by the number of ground-truth records
  is reached only when that number is positive. On an empty ground truth every
  calculator returns its all-\<^verbatim>\<open>None\<close> result with zero matched points.
\<close>

theorem matched_percentage_never_divides_by_zero:
  "calculate_field_errors gt conv fields \<noteq> Inl ZeroDivisionError \<and>
   calculate_position_error gt conv \<noteq> Inl ZeroDivisionError \<and>
   calculate_orientation_error gt conv \<noteq> Inl ZeroDivisionError \<and>
   calculate_acceleration_error gt conv \<noteq> Inl ZeroDivisionError \<and>
   (match_errors tol pair_error gt conv = Inr errors \<and> errors \<noteq> [] \<longrightarrow> gt \<noteq> []) \<and>
   calculate_field_errors [] conv fields = Inr (map (\<lambda>f. (f, no_field_stats)) fields) \<and>
   calculate_position_error [] conv = Inr (no_error_stats ''position_error_m'') \<and>
   calculate_orientation_error [] conv = Inr (no_error_stats ''orientation_error_deg'') \<and>
   calculate_acceleration_error [] conv = Inr (no_error_stats ''acceleration_error_mps2'')"
proof -
  have "gt \<noteq> []" if "match_errors tol pair_error gt conv = Inr errors" "errors \<noteq> []"
    using match_errors_length[OF that(1)] that(2) by auto
  then show ?thesis
    using calculate_field_errors_no_zero_div[of gt conv fields]
      calculate_position_error_no_zero_div[of gt conv]
      calculate_orientation_error_no_zero_div[of gt conv]
      calculate_acceleration_error_no_zero_div[of gt conv]
      calculate_field_errors_empty_gt[of conv fields]
    by (simp add: calculate_position_error_def calculate_orientation_error_def
          calculate_acceleration_error_def error_stats_def)
qed


theorem matched_percentage_never_divides_by_zero_witness:
  "match_errors (1 / 10) (field_pair_error ''dop.hdop'')
      [[(''time_unix'', JInt 0), (''dop'', JDict [(''hdop'', JFloat 1)])]]
      [[(''time_unix'', JInt 0), (''dop'', JDict [(''hdop'', JFloat 3)])]] = Inr [2] \<and>
   [2 :: real] \<noteq> [] \<and>
   [[(''time_unix'', JInt 0), (''dop'', JDict [(''hdop'', JFloat 1)])]] \<noteq> [] \<and>
   calculate_field_errors []
      [[(''time_unix'', JInt 0), (''dop'', JDict [(''hdop'', JFloat 3)])]] [''dop.hdop'']
     = Inr [(''dop.hdop'', no_field_stats)]"
  using matched_percentage_never_divides_by_zero
    [of "[[(''time_unix'', JInt 0), (''dop'', JDict [(''hdop'', JFloat 1)])]]"
        "[[(''time_unix'', JInt 0), (''dop'', JDict [(''hdop'', JFloat 3)])]]"
        "[''dop.hdop'']" "1 / 10" "field_pair_error ''dop.hdop''" "[2]"]
    matched_percentage_never_divides_by_zero
    [of "[]" "[[(''time_unix'', JInt 0), (''dop'', JDict [(''hdop'', JFloat 3)])]]"
        "[''dop.hdop'']"]
  by (simp add: entry_error_def find_closest_def py_get_def py_sub_def field_pair_error_def
        get_nested_field_def)

end
